theory Spec2Isabelle
  imports Main "HOL-Library.Word"
begin

unbundle bit_operations_syntax

section \<open>Python values used by \<open>terminal.py\<close>\<close>

text \<open>
  A Python \<open>str\<close> is a sequence of Unicode code points, so it is modelled as a list of
  natural numbers (not as a HOL \<open>string\<close>, whose characters are bytes). \<open>py\<close> writes an
  ASCII literal as such a list.
\<close>

type_synonym pystr = "nat list"

definition py :: "string \<Rightarrow> pystr" where
  "py cs = map of_char cs"

datatype py_error = ZeroDivisionError | ValueError

text \<open>
  \<open>str.rstrip()\<close> without argument removes trailing white space; the code points that
  Python 3 treats as white space are listed in \<open>isspace\<close>.
\<close>

definition isspace :: "nat \<Rightarrow> bool" where
  "isspace c \<longleftrightarrow>
     (9 \<le> c \<and> c \<le> 13) \<or> (28 \<le> c \<and> c \<le> 32) \<or> c = 133 \<or> c = 160 \<or> c = 5760
     \<or> (8192 \<le> c \<and> c \<le> 8202) \<or> c = 8232 \<or> c = 8233 \<or> c = 8239 \<or> c = 8287
     \<or> c = 12288"

definition rstrip :: "pystr \<Rightarrow> pystr" where
  "rstrip s = rev (dropWhile isspace (rev s))"

text \<open>\<open>sep.join(xs)\<close>.\<close>

fun join :: "pystr \<Rightarrow> pystr list \<Rightarrow> pystr" where
  "join sep [] = []"
| "join sep [x] = x"
| "join sep (x # y # ys) = x @ sep @ join sep (y # ys)"

text \<open>\<open>chr(i)\<close> raises \<open>ValueError\<close> outside \<open>range(0x110000)\<close>.\<close>

definition chr :: "int \<Rightarrow> py_error + pystr" where
  "chr i = (if 0 \<le> i \<and> i < 0x110000 then Inr [nat i] else Inl ValueError)"


section \<open>The screen as \<open>render_screen\<close> reads it\<close>

text \<open>
  \<open>render_screen\<close> reads a screen line in two ways: \<open>hist_line.values()\<close> for a line of
  \<open>screen.history.top\<close>, and \<open>screen.buffer[y][x]\<close> for every \<open>x\<close> in
  \<open>range(screen.columns)\<close> for a line of the grid. A line is therefore a dictionary from
  column to character that answers a missing column with a default character. It is
  modelled as an association list in insertion order (the order in which \<open>values()\<close>
  lists a Python \<open>dict\<close>); only the \<open>data\<close> string of a character is kept, since nothing
  else is read. \<open>buffer\<close> answers every row index, so it is a total function.
\<close>

type_synonym line = "(nat \<times> pystr) list"

record screen =
  columns :: nat
  lines :: nat
  default_char :: pystr
  buffer :: "nat \<Rightarrow> line"
  history_top :: "line list"

definition getitem :: "screen \<Rightarrow> line \<Rightarrow> nat \<Rightarrow> pystr" where
  "getitem scr ln x = (case map_of ln x of Some d \<Rightarrow> d | None \<Rightarrow> default_char scr)"

definition dict_values :: "line \<Rightarrow> pystr list" where
  "dict_values ln = map snd ln"

text \<open>\<open>char.data or " "\<close>\<close>

definition data_or_space :: "pystr \<Rightarrow> pystr" where
  "data_or_space d = (if d = [] then py '' '' else d)"


section \<open>\<open>TerminalWidget.render_screen\<close>\<close>

definition hist_line_text :: "line \<Rightarrow> pystr" where
  "hist_line_text hist_line = rstrip (concat (map data_or_space (dict_values hist_line)))"

definition screen_line_text :: "screen \<Rightarrow> nat \<Rightarrow> pystr" where
  "screen_line_text scr y =
     rstrip (concat (map (\<lambda>x. data_or_space (getitem scr (buffer scr y) x)) [0..<columns scr]))"

definition render_lines :: "screen \<Rightarrow> pystr list" where
  "render_lines scr =
     map hist_line_text (history_top scr) @ map (screen_line_text scr) [0..<lines scr]"

text \<open>\<open>while lines and not lines[-1]: lines.pop()\<close>\<close>

function pop_empty :: "pystr list \<Rightarrow> pystr list" where
  "pop_empty ls = (if ls \<noteq> [] \<and> last ls = [] then pop_empty (butlast ls) else ls)"
  by pat_completeness auto
termination
  by (relation "measure length") auto

declare pop_empty.simps [simp del]

definition new_text :: "screen \<Rightarrow> pystr" where
  "new_text scr = join (py ''\<newline>'') (pop_empty (render_lines scr))"

text \<open>
  The widget state that \<open>render_screen\<close> touches: the cached \<open>_last_text\<close>, the
  \<open>_user_scrolling\<close> flag, and the display, kept as the log of the calls issued to it
  (\<open>setPlainText\<close> and the scroll to the bottom).
\<close>

datatype display_call = setPlainText pystr | scroll_to_maximum

record widget =
  last_text :: pystr
  user_scrolling :: bool
  display :: "display_call list"

definition render_screen :: "screen \<Rightarrow> widget \<Rightarrow> widget" where
  "render_screen scr w =
     (let t = new_text scr in
      if t \<noteq> last_text w
      then w\<lparr>last_text := t,
             display := display w @ [setPlainText t]
                        @ (if \<not> user_scrolling w then [scroll_to_maximum] else [])\<rparr>
      else w)"


section \<open>The render projection as the specification words it\<close>

text \<open>
  The specification's projector lists the scrollback rows, oldest first, then the grid
  rows; every row is its cells column by column, with the trailing blanks stripped, and
  the trailing blank rows are removed. A row of the scrollback is as wide as the last
  column stored in it (\<open>row_extent\<close>); a row of the grid is \<open>columns\<close> wide.
\<close>

definition row_extent :: "line \<Rightarrow> nat" where
  "row_extent ln = foldr (\<lambda>kv n. max (Suc (fst kv)) n) ln 0"

definition row_cells :: "screen \<Rightarrow> nat \<Rightarrow> line \<Rightarrow> pystr list" where
  "row_cells scr n ln = map (getitem scr ln) [0..<n]"

definition row_text :: "pystr list \<Rightarrow> pystr" where
  "row_text cells = rstrip (concat (map data_or_space cells))"

definition project_rows :: "screen \<Rightarrow> pystr list" where
  "project_rows scr =
     map (\<lambda>ln. row_text (row_cells scr (row_extent ln) ln)) (history_top scr)
     @ map (\<lambda>y. row_text (row_cells scr (columns scr) (buffer scr y))) [0..<lines scr]"

definition project :: "screen \<Rightarrow> pystr" where
  "project scr = join (py ''\<newline>'') (rev (dropWhile (\<lambda>r. r = []) (rev (project_rows scr))))"

text \<open>
  A line whose cells were stored from column 0 on, left to right and without a gap.
\<close>

definition contiguous :: "line \<Rightarrow> bool" where
  "contiguous ln \<longleftrightarrow> map fst ln = [0..<length ln]"

text \<open>
  Two screens of the program's initial size, 120 columns by 30 lines, with a blank grid
  and one line in the scrollback. In \<open>gap_screen\<close> the line holds \<open>a\<close> in column 0 and
  \<open>b\<close> in column 2, column 1 never having been written (the cursor was moved over it).
  In \<open>order_screen\<close> the line holds \<open>ab\<close> in columns 0 and 1, column 1 written first.
\<close>

definition gap_screen :: screen where
  "gap_screen = \<lparr>columns = 120, lines = 30, default_char = py '' '', buffer = (\<lambda>y. []),
                  history_top = [[(0, py ''a''), (2, py ''b'')]]\<rparr>"

definition order_screen :: screen where
  "order_screen = \<lparr>columns = 120, lines = 30, default_char = py '' '', buffer = (\<lambda>y. []),
                    history_top = [[(1, py ''b''), (0, py ''a'')]]\<rparr>"

text \<open>
  The grid of 5 lines by 80 columns after \<open>Hello\<close>, carriage return, line feed and
  \<open>World\<close> were written into it from the top left corner.
\<close>

definition hello_world_screen :: screen where
  "hello_world_screen =
     \<lparr>columns = 80, lines = 5, default_char = py '' '',
      buffer = (\<lambda>y. if y = 0 then zip [0..<5] (map (\<lambda>c. [c]) (py ''Hello''))
                     else if y = 1 then zip [0..<5] (map (\<lambda>c. [c]) (py ''World''))
                     else []),
      history_top = []\<rparr>"


section \<open>\<open>TerminalWidget.keyPressEvent\<close>\<close>

text \<open>
  The key codes and modifier flags are the values of the Qt enumerations \<open>Qt.Key\<close> and
  \<open>Qt.KeyboardModifier\<close>, which \<open>terminal.py\<close> imports from PyQt6.
\<close>

definition Key_Escape :: int where "Key_Escape = 0x01000000"
definition Key_Tab :: int where "Key_Tab = 0x01000001"
definition Key_Backspace :: int where "Key_Backspace = 0x01000003"
definition Key_Return :: int where "Key_Return = 0x01000004"
definition Key_Enter :: int where "Key_Enter = 0x01000005"
definition Key_Delete :: int where "Key_Delete = 0x01000007"
definition Key_Home :: int where "Key_Home = 0x01000010"
definition Key_End :: int where "Key_End = 0x01000011"
definition Key_Left :: int where "Key_Left = 0x01000012"
definition Key_Up :: int where "Key_Up = 0x01000013"
definition Key_Right :: int where "Key_Right = 0x01000014"
definition Key_Down :: int where "Key_Down = 0x01000015"
definition Key_PageUp :: int where "Key_PageUp = 0x01000016"
definition Key_PageDown :: int where "Key_PageDown = 0x01000017"
definition Key_A :: int where "Key_A = 0x41"
definition Key_C :: int where "Key_C = 0x43"
definition Key_D :: int where "Key_D = 0x44"
definition Key_L :: int where "Key_L = 0x4c"
definition Key_V :: int where "Key_V = 0x56"
definition Key_Z :: int where "Key_Z = 0x5a"
definition Key_BracketLeft :: int where "Key_BracketLeft = 0x5b"

definition ShiftModifier :: int where "ShiftModifier = 0x02000000"
definition ControlModifier :: int where "ControlModifier = 0x04000000"

lemmas qt_defs =
  Key_Escape_def Key_Tab_def Key_Backspace_def Key_Return_def Key_Enter_def Key_Delete_def
  Key_Home_def Key_End_def Key_Left_def Key_Up_def Key_Right_def Key_Down_def
  Key_PageUp_def Key_PageDown_def Key_A_def Key_C_def Key_D_def Key_L_def Key_V_def
  Key_Z_def Key_BracketLeft_def ShiftModifier_def ControlModifier_def

record key_event =
  key :: int
  modifiers :: int
  text_of :: pystr

text \<open>
  What the handler does with an event: it calls \<open>copy_selection\<close>, \<open>paste_clipboard\<close>
  or \<open>write_to_pty\<close> with a string, or it calls nothing.
\<close>

datatype handler_call = copy_selection | paste_clipboard | write_to_pty pystr | no_call

definition ESC :: pystr where
  "ESC = [27]"

definition keyPressEvent :: "key_event \<Rightarrow> py_error + handler_call" where
  "keyPressEvent event =
     (let k = key event; m = modifiers event; t = text_of event in
      if m = (ControlModifier OR ShiftModifier) \<and> k = Key_C then Inr copy_selection
      else if m = (ControlModifier OR ShiftModifier) \<and> k = Key_V then Inr paste_clipboard
      else if k = Key_Return \<or> k = Key_Enter then Inr (write_to_pty [13])
      else if k = Key_Backspace then Inr (write_to_pty [127])
      else if k = Key_Tab then Inr (write_to_pty [9])
      else if k = Key_Escape then Inr (write_to_pty ESC)
      else if k = Key_Up then Inr (write_to_pty (ESC @ py ''[A''))
      else if k = Key_Down then Inr (write_to_pty (ESC @ py ''[B''))
      else if k = Key_Right then Inr (write_to_pty (ESC @ py ''[C''))
      else if k = Key_Left then Inr (write_to_pty (ESC @ py ''[D''))
      else if k = Key_Home then Inr (write_to_pty (ESC @ py ''[H''))
      else if k = Key_End then Inr (write_to_pty (ESC @ py ''[F''))
      else if k = Key_Delete then Inr (write_to_pty (ESC @ py ''[3~''))
      else if k = Key_PageUp then Inr (write_to_pty (ESC @ py ''[5~''))
      else if k = Key_PageDown then Inr (write_to_pty (ESC @ py ''[6~''))
      else if m = ControlModifier then
        (if k = Key_C then Inr (write_to_pty [3])
         else if k = Key_D then Inr (write_to_pty [4])
         else if k = Key_Z then Inr (write_to_pty [26])
         else if k = Key_L then Inr (write_to_pty [12])
         else if k \<ge> Key_A \<and> k \<le> Key_Z then
           (case chr (k - Key_A + 1) of Inl e \<Rightarrow> Inl e | Inr s \<Rightarrow> Inr (write_to_pty s))
         else Inr no_call)
      else if t \<noteq> [] then Inr (write_to_pty t)
      else Inr no_call)"

text \<open>
  The string that reaches \<open>write_to_pty\<close>, given the clipboard's text:
  \<open>paste_clipboard\<close> writes the clipboard when it is not empty, \<open>copy_selection\<close>
  writes nothing.
\<close>

fun written :: "pystr \<Rightarrow> handler_call \<Rightarrow> pystr" where
  "written clipboard copy_selection = []"
| "written clipboard paste_clipboard = clipboard"
| "written clipboard (write_to_pty s) = s"
| "written clipboard no_call = []"

subsection \<open>The mapping table as the specification words it\<close>

definition special_keys :: "(int \<times> pystr) list" where
  "special_keys =
     [(Key_Up, ESC @ py ''[A''), (Key_Down, ESC @ py ''[B''),
      (Key_Right, ESC @ py ''[C''), (Key_Left, ESC @ py ''[D''),
      (Key_Return, [13]), (Key_Enter, [13]), (Key_Backspace, [127]), (Key_Tab, [9]),
      (Key_Escape, ESC), (Key_Delete, ESC @ py ''[3~''), (Key_Home, ESC @ py ''[H''),
      (Key_End, ESC @ py ''[F''), (Key_PageUp, ESC @ py ''[5~''),
      (Key_PageDown, ESC @ py ''[6~'')]"

definition ctrl_explicit :: "(int \<times> pystr) list" where
  "ctrl_explicit = [(Key_C, [3]), (Key_D, [4]), (Key_Z, [26]), (Key_L, [12])]"

definition is_letter :: "int \<Rightarrow> bool" where
  "is_letter k \<longleftrightarrow> Key_A \<le> k \<and> k \<le> Key_Z"

definition encode :: "key_event \<Rightarrow> pystr" where
  "encode event =
     (case map_of special_keys (key event) of
        Some bytes \<Rightarrow> bytes
      | None \<Rightarrow>
          if modifiers event = ControlModifier \<and> is_letter (key event)
          then (case map_of ctrl_explicit (key event) of
                  Some bytes \<Rightarrow> bytes
                | None \<Rightarrow> [nat (key event - Key_A + 1)])
          else text_of event)"

text \<open>
  The two kinds of event that the handler takes away from the table: the clipboard
  chords, and a key with a literal text, pressed with Ctrl alone, that is neither in the
  table nor a letter.
\<close>

definition clipboard_chord :: "key_event \<Rightarrow> bool" where
  "clipboard_chord event \<longleftrightarrow>
     modifiers event = (ControlModifier OR ShiftModifier)
     \<and> (key event = Key_C \<or> key event = Key_V)"

definition ctrl_other :: "key_event \<Rightarrow> bool" where
  "ctrl_other event \<longleftrightarrow>
     modifiers event = ControlModifier \<and> map_of special_keys (key event) = None
     \<and> \<not> is_letter (key event) \<and> text_of event \<noteq> []"

definition ctrl_shift_c :: key_event where
  "ctrl_shift_c = \<lparr>key = Key_C, modifiers = ControlModifier OR ShiftModifier, text_of = [3]\<rparr>"

definition ctrl_c :: key_event where
  "ctrl_c = \<lparr>key = Key_C, modifiers = ControlModifier, text_of = [3]\<rparr>"

definition ctrl_bracket :: key_event where
  "ctrl_bracket = \<lparr>key = Key_BracketLeft, modifiers = ControlModifier, text_of = [27]\<rparr>"


section \<open>\<open>TerminalWidget.read_pty\<close>\<close>

text \<open>
  The worker loop reads the channel until \<open>running\<close> is cleared or a read raises. What
  the loop meets is given as a script, one entry per iteration: the value of
  \<open>self.running\<close> when the loop condition is tested, whether \<open>pty_process.read()\<close>
  returns a string or raises, and the value of \<open>self.running\<close> when the handler tests
  it (\<open>cleanup\<close> may clear the flag from the owning thread at any moment). The result is
  the list of strings emitted on \<open>data_ready\<close> and the number of reads performed;
  \<open>None\<close> means that the script ended while the loop was still running.
\<close>

datatype read_outcome = returns pystr | raises

record iteration =
  running_at_test :: bool
  read_result :: read_outcome
  running_in_handler :: bool

definition session_ended :: pystr where
  "session_ended = py ''\<newline>[Session ended]\<newline>''"

fun read_pty :: "bool \<Rightarrow> iteration list \<Rightarrow> (pystr list \<times> nat) option" where
  "read_pty pty_process [] = None"
| "read_pty pty_process (it # its) =
     (if running_at_test it \<and> pty_process then
        (case read_result it of
           returns d \<Rightarrow>
             (case read_pty pty_process its of
                None \<Rightarrow> None
              | Some (emitted, reads) \<Rightarrow>
                  Some ((if d \<noteq> [] then [d] else []) @ emitted, Suc reads))
         | raises \<Rightarrow> Some (if running_in_handler it then [session_ended] else [], 1))
      else Some ([], 0))"

text \<open>The strings that a run of successful reads emits: the non-empty ones, in order.\<close>

fun emitted_data :: "iteration list \<Rightarrow> pystr list" where
  "emitted_data [] = []"
| "emitted_data (it # its) =
     (case read_result it of
        returns d \<Rightarrow> (if d \<noteq> [] then [d] else []) @ emitted_data its
      | raises \<Rightarrow> emitted_data its)"

definition succeeds :: "iteration \<Rightarrow> bool" where
  "succeeds it \<longleftrightarrow> running_at_test it \<and> read_result it \<noteq> raises"

definition fails_running :: "iteration \<Rightarrow> bool" where
  "fails_running it \<longleftrightarrow> running_at_test it \<and> read_result it = raises \<and> running_in_handler it"


section \<open>\<open>TerminalWidget.resizeEvent\<close>\<close>

text \<open>
  The handler gets the viewport's width and height and the font's average character
  width and height. It calls \<open>pty_process.set_size(cols, rows)\<close> and then
  \<open>screen.resize(rows, cols)\<close> inside a \<open>try\<close> whose bare \<open>except\<close> swallows every
  exception, so a failing \<open>set_size\<close> skips \<open>screen.resize\<close>. The two divisions are made
  before the \<open>try\<close>. The result is the list of the calls made.
\<close>

datatype resize_call = set_size int int | screen_resize int int

definition resizeEvent ::
  "bool \<Rightarrow> int \<Rightarrow> int \<Rightarrow> int \<Rightarrow> int \<Rightarrow> bool \<Rightarrow> py_error + resize_call list" where
  "resizeEvent pty_process width height char_width char_height set_size_ok =
     (if pty_process then
        (if char_width = 0 then Inl ZeroDivisionError
         else let cols = max 80 (width div char_width) in
           if char_height = 0 then Inl ZeroDivisionError
           else let rows = max 24 (height div char_height) in
             Inr (set_size cols rows # (if set_size_ok then [screen_resize rows cols] else [])))
      else Inr [])"

text \<open>The column and row counts that a call applies.\<close>

fun applied_cols :: "resize_call \<Rightarrow> int" where
  "applied_cols (set_size cols rows) = cols"
| "applied_cols (screen_resize rows cols) = cols"

fun applied_rows :: "resize_call \<Rightarrow> int" where
  "applied_rows (set_size cols rows) = rows"
| "applied_rows (screen_resize rows cols) = rows"


section \<open>Properties of the render projection\<close>

subsection \<open>Where the code and the specification's projection agree\<close>

text \<open>
  The loop that pops the trailing empty lines removes exactly the trailing empty lines.
\<close>

lemma pop_empty_dropWhile: "pop_empty ls = rev (dropWhile (\<lambda>r. r = []) (rev ls))"
proof (induction ls rule: pop_empty.induct)
  case (1 ls)
  show ?case
  proof (cases "ls \<noteq> [] \<and> last ls = []")
    case True
    then obtain ys where ls: "ls = ys @ [[]]"
      by (metis append_butlast_last_id)
    have "pop_empty ls = pop_empty (butlast ls)"
      using True by (subst pop_empty.simps) simp
    also have "\<dots> = rev (dropWhile (\<lambda>r. r = []) (rev (butlast ls)))"
      using "1.IH" True by simp
    finally show ?thesis by (simp add: ls)
  next
    case False
    then have "pop_empty ls = ls"
      by (subst pop_empty.simps) auto
    moreover have "rev (dropWhile (\<lambda>r. r = []) (rev ls)) = ls"
    proof (cases ls rule: rev_cases)
      case Nil
      then show ?thesis by simp
    next
      case (snoc ys y)
      with False show ?thesis by simp
    qed
    ultimately show ?thesis by simp
  qed
qed

text \<open>
  On a line stored from column 0 on, left to right and without a gap, \<open>values()\<close> lists
  the cells column by column, so the two readings of a line agree, and with them the
  whole projection.
\<close>

lemma foldr_extent: "foldr (\<lambda>kv n. max (Suc (fst kv)) n) ln m = max m (row_extent ln)"
  by (induction ln) (auto simp: row_extent_def)

lemma row_extent_contiguous:
  assumes "contiguous ln"
  shows "row_extent ln = length ln"
  using assms
proof (induction ln rule: rev_induct)
  case Nil
  then show ?case by (simp add: row_extent_def)
next
  case (snoc kv ln)
  then have c: "contiguous ln" and k: "fst kv = length ln"
    by (auto simp: contiguous_def)
  have "row_extent (ln @ [kv]) = foldr (\<lambda>kv n. max (Suc (fst kv)) n) ln (Suc (fst kv))"
    by (simp add: row_extent_def)
  also have "\<dots> = max (Suc (fst kv)) (row_extent ln)"
    by (rule foldr_extent)
  finally show ?case using snoc.IH [OF c] k by simp
qed

lemma row_cells_contiguous:
  assumes "contiguous ln"
  shows "row_cells scr (length ln) ln = dict_values ln"
proof (rule nth_equalityI)
  show "length (row_cells scr (length ln) ln) = length (dict_values ln)"
    by (simp add: row_cells_def dict_values_def)
next
  fix i assume "i < length (row_cells scr (length ln) ln)"
  then have i: "i < length ln" by (simp add: row_cells_def)
  have "fst (ln ! i) = map fst ln ! i"
    using i by simp
  also have "\<dots> = i"
    using assms i by (simp add: contiguous_def)
  finally have "ln ! i = (i, snd (ln ! i))"
    by (metis prod.collapse)
  then have "(i, snd (ln ! i)) \<in> set ln"
    using i by (metis nth_mem)
  moreover have "distinct (map fst ln)"
    using assms by (simp add: contiguous_def)
  ultimately have "map_of ln i = Some (snd (ln ! i))"
    by (rule map_of_is_SomeI [rotated])
  then show "row_cells scr (length ln) ln ! i = dict_values ln ! i"
    using i by (simp add: row_cells_def dict_values_def getitem_def)
qed

lemma hist_line_text_contiguous:
  "contiguous ln \<Longrightarrow> hist_line_text ln = row_text (row_cells scr (row_extent ln) ln)"
  by (simp add: hist_line_text_def row_text_def row_extent_contiguous row_cells_contiguous)

lemma new_text_project:
  assumes "list_all contiguous (history_top scr)"
  shows "new_text scr = project scr"
proof -
  have "map hist_line_text (history_top scr)
        = map (\<lambda>ln. row_text (row_cells scr (row_extent ln) ln)) (history_top scr)"
    using assms by (auto simp: list_all_iff hist_line_text_contiguous)
  moreover have "map (screen_line_text scr) [0..<lines scr]
        = map (\<lambda>y. row_text (row_cells scr (columns scr) (buffer scr y))) [0..<lines scr]"
    by (simp add: screen_line_text_def row_text_def row_cells_def comp_def)
  ultimately have "render_lines scr = project_rows scr"
    by (simp add: render_lines_def project_rows_def)
  then show ?thesis
    by (simp add: new_text_def project_def pop_empty_dropWhile)
qed

text \<open>
  The scenario of the specification: the grid that holds \<open>Hello\<close> in its first line
  and \<open>World\<close> in its second is rendered as the two words on two lines.
\<close>

lemma new_text_hello_world: "new_text hello_world_screen = py ''Hello\<newline>World''"
  by code_simp

subsection \<open>Where they differ\<close>

text \<open>
  \<open>values()\<close> lists the cells in the order in which they were stored, not by column.
\<close>

lemma new_text_order_screen:
  "new_text order_screen = py ''ba'' \<and> project order_screen = py ''ab''"
  by code_simp

lemma new_text_gap_screen: "new_text gap_screen = py ''ab''"
  by code_simp

lemma project_gap_screen: "project gap_screen = py ''a b''"
  by code_simp

text \<open>
  Claim C4 (render projection). The claim reads: the projection is the scrollback rows,
  oldest first, followed by the grid rows, each row right-trimmed, the trailing blank
  rows removed. \<open>render_screen\<close> reads a grid row column by column but a scrollback
  row through \<open>values()\<close>, which lists only the cells that were stored: on the
  scrollback row holding \<open>a\<close> in column 0 and \<open>b\<close> in column 2 it yields \<open>ab\<close>, where the
  row reads \<open>a b\<close>.
\<close>

theorem render_screen_history_gap:
  "new_text gap_screen = py ''ab'' \<and> project gap_screen = py ''a b''"
  by (simp only: new_text_gap_screen project_gap_screen)

text \<open>
  Claim C5 (idempotent snapshot). After \<open>render_screen\<close> the cached text is the text
  computed from the screen; a second call on the same screen leaves the widget as it
  is: the same text, and no further call to the display.
\<close>

theorem render_screen_idempotent:
  "last_text (render_screen scr w) = new_text scr
   \<and> render_screen scr (render_screen scr w) = render_screen scr w
   \<and> display (render_screen scr (render_screen scr w)) = display (render_screen scr w)"
  by (simp add: render_screen_def Let_def)


section \<open>Properties of the key handler\<close>

text \<open>
  Claim C6 as stated (every key event writes what the table gives) fails on
  Ctrl+Shift+C: the handler copies the selection and writes nothing, where the table
  gives the byte 3.
\<close>

theorem keyPressEvent_ctrl_shift_c:
  "keyPressEvent ctrl_shift_c = Inr copy_selection
   \<and> written (py ''clip'') copy_selection = []
   \<and> encode ctrl_shift_c = [3]"
  by (simp add: keyPressEvent_def encode_def ctrl_shift_c_def Let_def special_keys_def
      ctrl_explicit_def is_letter_def qt_defs)

text \<open>
  Claim C6, amended. The handler never fails. Ctrl+Shift+C calls \<open>copy_selection\<close> and
  Ctrl+Shift+V calls \<open>paste_clipboard\<close>; every other event, unless it is a key with a
  literal text pressed with Ctrl alone that is neither in the table nor a letter, writes
  exactly what the table gives, and calls nothing when the table gives no byte.
\<close>

theorem keyPressEvent_table:
  assumes "\<not> ctrl_other event"
  shows "keyPressEvent event =
           Inr (if clipboard_chord event \<and> key event = Key_C then copy_selection
                else if clipboard_chord event then paste_clipboard
                else if encode event = [] then no_call
                else write_to_pty (encode event))"
  using assms
  by (auto simp: keyPressEvent_def encode_def Let_def special_keys_def ctrl_explicit_def
      is_letter_def clipboard_chord_def ctrl_other_def chr_def qt_defs ESC_def py_def
      split: if_splits)

theorem keyPressEvent_table_witness:
  "\<not> ctrl_other ctrl_c \<and> keyPressEvent ctrl_c = Inr (write_to_pty [3])"
  using keyPressEvent_table [of ctrl_c]
  by (simp add: ctrl_c_def ctrl_other_def clipboard_chord_def encode_def special_keys_def
      ctrl_explicit_def is_letter_def qt_defs)

text \<open>
  The excluded events: Ctrl+[ carries the literal text ESC, and the handler calls
  nothing.
\<close>

lemma keyPressEvent_ctrl_bracket:
  "ctrl_other ctrl_bracket \<and> keyPressEvent ctrl_bracket = Inr no_call
   \<and> encode ctrl_bracket = [27]"
  by (simp add: keyPressEvent_def Let_def ctrl_bracket_def ctrl_other_def encode_def
      special_keys_def ctrl_explicit_def is_letter_def qt_defs)


section \<open>Properties of the worker loop\<close>

lemma read_pty_prefix:
  assumes "\<forall>it \<in> set before. succeeds it"
  shows "read_pty True (before @ rest) =
           (case read_pty True rest of
              None \<Rightarrow> None
            | Some (emitted, reads) \<Rightarrow>
                Some (emitted_data before @ emitted, length before + reads))"
  using assms
proof (induction before)
  case Nil
  then show ?case by (simp split: option.splits)
next
  case (Cons it before)
  then show ?case
    by (cases "read_result it") (auto simp: succeeds_def split: option.splits)
qed

text \<open>
  Claim C9 (read failure ends the session). When the reads of \<open>before\<close> succeed and the
  next read raises while \<open>running\<close> is set, the worker returns: it has emitted the
  non-empty strings read so far and then the session-ended notice, once, and it has
  performed no read after the failing one, whatever the channel would have answered
  (\<open>after\<close>).
\<close>

theorem read_pty_read_failure:
  assumes "\<forall>it \<in> set before. succeeds it" and "fails_running failing"
  shows "read_pty True (before @ failing # after) =
           Some (emitted_data before @ [session_ended], Suc (length before))"
  using assms(2) by (simp add: read_pty_prefix [OF assms(1)] fails_running_def)

theorem read_pty_read_failure_witness:
  "read_pty True
     ([\<lparr>running_at_test = True, read_result = returns (py ''dir''), running_in_handler = True\<rparr>,
       \<lparr>running_at_test = True, read_result = returns [], running_in_handler = True\<rparr>]
      @ \<lparr>running_at_test = True, read_result = raises, running_in_handler = True\<rparr>
      # [\<lparr>running_at_test = True, read_result = returns (py ''late''), running_in_handler = True\<rparr>])
   = Some ([py ''dir'', session_ended], 3)"
proof -
  have b: "\<forall>it \<in> set [\<lparr>running_at_test = True, read_result = returns (py ''dir''),
                         running_in_handler = True\<rparr>,
                       \<lparr>running_at_test = True, read_result = returns [],
                         running_in_handler = True\<rparr>]. succeeds it"
    by (simp add: succeeds_def)
  have f: "fails_running \<lparr>running_at_test = True, read_result = raises,
                          running_in_handler = True\<rparr>"
    by (simp add: fails_running_def)
  show ?thesis
    using read_pty_read_failure [OF b f] by (simp add: py_def)
qed


section \<open>Properties of the resize handler\<close>

text \<open>
  Claim C10 (minimum grid size). Every call that a resize event makes, on the channel
  or on the screen, applies \<open>max(80, width // char_width)\<close> columns and
  \<open>max(24, height // char_height)\<close> rows, so at least 80 columns and 24 rows.
\<close>

theorem resizeEvent_minimum:
  assumes "resizeEvent pty_process width height char_width char_height set_size_ok = Inr calls"
      and "c \<in> set calls"
  shows "applied_cols c = max 80 (width div char_width)
         \<and> applied_rows c = max 24 (height div char_height)
         \<and> 80 \<le> applied_cols c \<and> 24 \<le> applied_rows c"
  using assms
  by (auto simp: resizeEvent_def Let_def split: if_splits)

theorem resizeEvent_minimum_witness:
  "resizeEvent True 400 300 8 16 True = Inr [set_size 80 24, screen_resize 24 80]
   \<and> screen_resize 24 80 \<in> set [set_size 80 24, screen_resize 24 80]
   \<and> applied_cols (screen_resize 24 80) = max 80 (400 div 8)
   \<and> applied_rows (screen_resize 24 80) = max 24 (300 div 16)
   \<and> 80 \<le> applied_cols (screen_resize 24 80) \<and> 24 \<le> applied_rows (screen_resize 24 80)"
proof -
  have r: "resizeEvent True 400 300 8 16 True = Inr [set_size 80 24, screen_resize 24 80]"
    by (simp add: resizeEvent_def Let_def)
  have m: "screen_resize 24 80 \<in> set [set_size 80 24, screen_resize 24 80]"
    by simp
  show ?thesis
    using resizeEvent_minimum [OF r m] r by simp
qed

end
